theory Spec2Isabelle
  imports Main "HOL-Library.Multiset"
begin

section \<open>Bytes, strings and the formatting verbs of fmt\<close>

text \<open>
  A Go \<open>string\<close> and a Go \<open>[]byte\<close> are both sequences of 8-bit bytes, and
  \<open>string(c.Pattern)\<close> converts one into the other without changing a byte. HOL's
  \<open>char\<close> is an 8-bit byte, so both are modelled as \<open>char list\<close>; the numeric
  value of a byte is read with \<open>of_char\<close>.
\<close>

type_synonym byte = char

abbreviation dquote :: char where
  "dquote \<equiv> CHR 0x22"

abbreviation backslash :: char where
  "backslash \<equiv> CHR 0x5C"

text \<open>\<open>%.2X\<close> on a byte: two upper-case hexadecimal digits, zero padded.\<close>

definition hexDigit :: "nat \<Rightarrow> char" where
  "hexDigit n = ''0123456789ABCDEF'' ! n"

definition Sprintf_02X :: "byte \<Rightarrow> string" where
  "Sprintf_02X b = [hexDigit ((of_char b :: nat) div 16), hexDigit ((of_char b :: nat) mod 16)]"

text \<open>\<open>%d\<close> on an \<open>int\<close>: decimal digits without padding, a minus sign when negative.\<close>

fun digits :: "nat \<Rightarrow> string" where
  "digits n =
     (if n < 10 then [''0123456789'' ! n]
      else digits (n div 10) @ [''0123456789'' ! (n mod 10)])"

declare digits.simps [simp del]

definition Sprintf_d :: "int \<Rightarrow> string" where
  "Sprintf_d i = (if i < 0 then CHR ''-'' # digits (nat (- i)) else digits (nat i))"

text \<open>
  \<open>strconv.Atoi\<close> of Go's standard library, for a 64-bit \<open>int\<close>: an optional sign, then
  at least one decimal digit and nothing else; a value outside the range of \<open>int\<close> is an
  error. \<open>None\<close> is the error return.
\<close>

fun parseDigits :: "nat \<Rightarrow> string \<Rightarrow> nat option" where
  "parseDigits n [] = Some n"
| "parseDigits n (ch # rest) =
     (if (48::nat) \<le> of_char ch \<and> of_char ch \<le> (57::nat)
      then parseDigits (n * 10 + (of_char ch - 48)) rest
      else None)"

definition Atoi :: "string \<Rightarrow> int option" where
  "Atoi s =
     (case s of
        [] \<Rightarrow> None
      | c # cs \<Rightarrow>
          (let body = (if c = CHR ''-'' \<or> c = CHR ''+'' then cs else s) in
           if body = [] then None
           else (case parseDigits 0 body of
                   None \<Rightarrow> None
                 | Some n \<Rightarrow>
                     (let v = (if c = CHR ''-'' then - int n else int n) in
                      if - (2 ^ 63) \<le> v \<and> v < 2 ^ 63 then Some v else None))))"

section \<open>Data model\<close>

text \<open>
  \<open>DataPos\<close> and \<open>byteMatcher\<close> are Go \<open>int\<close> types with named constants (\<open>iota\<close>),
  not closed enumerations: a value outside the constants is a value of the type.
\<close>

type_synonym DataPos = int

abbreviation (input) pktData :: DataPos where "pktData \<equiv> 0"
abbreviation (input) fileData :: DataPos where "fileData \<equiv> 1"
abbreviation (input) base64Data :: DataPos where "base64Data \<equiv> 2"
abbreviation (input) httpAcceptEnc :: DataPos where "httpAcceptEnc \<equiv> 3"
abbreviation (input) httpAccept :: DataPos where "httpAccept \<equiv> 4"
abbreviation (input) httpAcceptLang :: DataPos where "httpAcceptLang \<equiv> 5"
abbreviation (input) httpConnection :: DataPos where "httpConnection \<equiv> 6"
abbreviation (input) httpContentLen :: DataPos where "httpContentLen \<equiv> 7"
abbreviation (input) httpContentType :: DataPos where "httpContentType \<equiv> 8"
abbreviation (input) httpHeaderNames :: DataPos where "httpHeaderNames \<equiv> 9"
abbreviation (input) httpProtocol :: DataPos where "httpProtocol \<equiv> 10"
abbreviation (input) httpReferer :: DataPos where "httpReferer \<equiv> 11"
abbreviation (input) httpRequestLine :: DataPos where "httpRequestLine \<equiv> 12"
abbreviation (input) httpResponseLine :: DataPos where "httpResponseLine \<equiv> 13"
abbreviation (input) httpStart :: DataPos where "httpStart \<equiv> 14"
abbreviation (input) tlsCertSubject :: DataPos where "tlsCertSubject \<equiv> 15"
abbreviation (input) tlsCertIssuer :: DataPos where "tlsCertIssuer \<equiv> 16"
abbreviation (input) tlsCertSerial :: DataPos where "tlsCertSerial \<equiv> 17"
abbreviation (input) tlsCertFingerprint :: DataPos where "tlsCertFingerprint \<equiv> 18"
abbreviation (input) tlsSNI :: DataPos where "tlsSNI \<equiv> 19"
abbreviation (input) ja3Hash :: DataPos where "ja3Hash \<equiv> 20"
abbreviation (input) ja3String :: DataPos where "ja3String \<equiv> 21"
abbreviation (input) sshProto :: DataPos where "sshProto \<equiv> 22"
abbreviation (input) sshSoftware :: DataPos where "sshSoftware \<equiv> 23"
abbreviation (input) krb5Cname :: DataPos where "krb5Cname \<equiv> 24"
abbreviation (input) krb5Sname :: DataPos where "krb5Sname \<equiv> 25"
abbreviation (input) dnsQuery :: DataPos where "dnsQuery \<equiv> 26"
abbreviation (input) smbNamedPipe :: DataPos where "smbNamedPipe \<equiv> 27"
abbreviation (input) smbShare :: DataPos where "smbShare \<equiv> 28"

text \<open>
  The map literal \<open>stickyBuffers\<close>, as its list of entries (Go rejects a literal with a
  repeated key). Indexing the map is \<open>map_of\<close>; ranging over it visits every entry once,
  in an order Go leaves unspecified.
\<close>

definition stickyBuffers :: "(DataPos \<times> string) list" where
  "stickyBuffers =
     [(pktData, ''pkt_data''),
      (fileData, ''file_data''),
      (base64Data, ''base64_data''),
      (httpAcceptEnc, ''http_accept_enc''),
      (httpAccept, ''http_accept''),
      (httpAcceptLang, ''http_accept_lang''),
      (httpConnection, ''http_connection''),
      (httpContentLen, ''http_content_len''),
      (httpContentType, ''http_content_type''),
      (httpHeaderNames, ''http_header_names''),
      (httpProtocol, ''http_protocol''),
      (httpReferer, ''http_referer''),
      (httpRequestLine, ''http_request_line''),
      (httpResponseLine, ''http_response_line''),
      (httpStart, ''http_start''),
      (tlsCertSubject, ''tls_cert_subject''),
      (tlsCertIssuer, ''tls_cert_issuer''),
      (tlsCertSerial, ''tls_cert_serial''),
      (tlsCertFingerprint, ''tls_cert_fingerprint''),
      (tlsSNI, ''tls_sni''),
      (ja3Hash, ''ja3_hash''),
      (ja3String, ''ja3_string''),
      (sshProto, ''ssh_proto''),
      (sshSoftware, ''ssh_software''),
      (krb5Cname, ''krb5_cname''),
      (krb5Sname, ''krb5_sname''),
      (dnsQuery, ''dns_query''),
      (smbNamedPipe, ''smb_named_pipe''),
      (smbShare, ''smb_share'')]"

type_synonym byteMatcher = int

abbreviation (input) bUnknown :: byteMatcher where "bUnknown \<equiv> 0"
abbreviation (input) bExtract :: byteMatcher where "bExtract \<equiv> 1"
abbreviation (input) bTest :: byteMatcher where "bTest \<equiv> 2"
abbreviation (input) bJump :: byteMatcher where "bJump \<equiv> 3"

definition byteMatcherVals :: "(byteMatcher \<times> string) list" where
  "byteMatcherVals =
     [(bExtract, ''byte_extract''),
      (bJump, ''byte_jump''),
      (bTest, ''byte_test'')]"

text \<open>
  The structs. A record's fields carry the struct's name as a prefix, since several
  structs share field names (\<open>Value\<close>, \<open>Pattern\<close>, \<open>Options\<close>). The slices of
  pointers (\<open>[]*Content\<close>, \<open>[]*Flowbit\<close>, ...) are lists of the values pointed to.
\<close>

record Metadata =
  Metadata_Key :: string
  Metadata_Value :: string

record Flowbit =
  Flowbit_Action :: string
  Flowbit_Value :: string

record Network =
  Network_Nets :: "string list"
  Network_Ports :: "string list"

record FastPattern =
  FastPattern_Enabled :: bool
  FastPattern_Only :: bool
  FastPattern_Offset :: int
  FastPattern_Length :: int

record ContentOption =
  ContentOption_Name :: string
  ContentOption_Value :: string

record Content =
  Content_DataPosition :: DataPos
  Content_FastPattern :: FastPattern
  Content_Pattern :: "byte list"
  Content_Negate :: bool
  Content_Options :: "ContentOption list"

record ByteMatch =
  ByteMatch_DataPosition :: DataPos
  ByteMatch_Kind :: byteMatcher
  ByteMatch_Variable :: string
  ByteMatch_NumBytes :: int
  ByteMatch_Operator :: string
  ByteMatch_Value :: int
  ByteMatch_Offset :: int
  ByteMatch_Options :: "string list"

record PCRE =
  PCRE_Pattern :: "byte list"
  PCRE_Negate :: bool
  PCRE_Options :: "byte list"

record Reference =
  Reference_Type :: string
  Reference_Value :: string

text \<open>
  \<open>orderedMatcher\<close> is the interface of the values with a \<open>String\<close> method; the ordered
  list of a rule holds \<open>*Content\<close>, \<open>*PCRE\<close> and \<open>*ByteMatch\<close>, one constructor each.
  The type assertion \<open>m.(*Content)\<close> of \<open>Rule.String\<close> is the test for \<open>MContent\<close>.
\<close>

datatype orderedMatcher =
  MContent Content
| MPCRE PCRE
| MByteMatch ByteMatch

text \<open>
  \<open>Tags\<close> is a Go map; \<open>Rule.String\<close> only ranges over it, so the field holds the
  entries in the order that the range visits them.
\<close>

record Rule =
  Rule_Disabled :: bool
  Rule_Action :: string
  Rule_Protocol :: string
  Rule_Source :: Network
  Rule_Destination :: Network
  Rule_Bidirectional :: bool
  Rule_SID :: int
  Rule_Revision :: int
  Rule_Description :: string
  Rule_References :: "Reference list"
  Rule_Contents :: "Content list"
  Rule_PCREs :: "PCRE list"
  Rule_ByteMatchers :: "ByteMatch list"
  Rule_Tags :: "(string \<times> string) list"
  Rule_Metas :: "Metadata list"
  Rule_Flowbits :: "Flowbit list"
  Rule_Matchers :: "orderedMatcher list"

text \<open>
  The zero value of each struct: what a composite literal leaves in the fields that it
  does not name. \<open>Content{Pattern: p}\<close> is \<open>Content_zero\<lparr>Content_Pattern := p\<rparr>\<close>.
\<close>

definition FastPattern_zero :: FastPattern where
  "FastPattern_zero =
     \<lparr>FastPattern_Enabled = False, FastPattern_Only = False,
      FastPattern_Offset = 0, FastPattern_Length = 0\<rparr>"

definition Content_zero :: Content where
  "Content_zero =
     \<lparr>Content_DataPosition = pktData, Content_FastPattern = FastPattern_zero,
      Content_Pattern = [], Content_Negate = False, Content_Options = []\<rparr>"

definition ByteMatch_zero :: ByteMatch where
  "ByteMatch_zero =
     \<lparr>ByteMatch_DataPosition = pktData, ByteMatch_Kind = bUnknown, ByteMatch_Variable = [],
      ByteMatch_NumBytes = 0, ByteMatch_Operator = [], ByteMatch_Value = 0,
      ByteMatch_Offset = 0, ByteMatch_Options = []\<rparr>"

definition Network_zero :: Network where
  "Network_zero = \<lparr>Network_Nets = [], Network_Ports = []\<rparr>"

definition Rule_zero :: Rule where
  "Rule_zero =
     \<lparr>Rule_Disabled = False, Rule_Action = [], Rule_Protocol = [],
      Rule_Source = Network_zero, Rule_Destination = Network_zero,
      Rule_Bidirectional = False, Rule_SID = 0, Rule_Revision = 0, Rule_Description = [],
      Rule_References = [], Rule_Contents = [], Rule_PCREs = [], Rule_ByteMatchers = [],
      Rule_Tags = [], Rule_Metas = [], Rule_Flowbits = [], Rule_Matchers = []\<rparr>"

section \<open>Keyword tables\<close>

text \<open>\<open>DataPos.String\<close>: indexing a Go map with an absent key yields the empty string.\<close>

definition DataPos_String :: "DataPos \<Rightarrow> string" where
  "DataPos_String d = (case map_of stickyBuffers d of Some v \<Rightarrow> v | None \<Rightarrow> [])"

text \<open>
  The loop \<open>for k, v := range m { if v == s { return k, nil } }\<close> over the entries in
  the order \<open>es\<close> in which the range visits them.
\<close>

fun rangeFind :: "('k \<times> string) list \<Rightarrow> string \<Rightarrow> 'k option" where
  "rangeFind [] s = None"
| "rangeFind ((k, v) # es) s = (if v = s then Some k else rangeFind es s)"

text \<open>
  \<open>StickyBuffer\<close> returns a value and an error (\<open>None\<close> is \<open>nil\<close>, \<open>Some msg\<close> an error
  with that message). The first argument is the order in which \<open>range stickyBuffers\<close>
  visits the table: a permutation of \<open>stickyBuffers\<close>.
\<close>

definition StickyBuffer :: "(DataPos \<times> string) list \<Rightarrow> string \<Rightarrow> DataPos \<times> string option" where
  "StickyBuffer es s =
     (case rangeFind es s of
        Some k \<Rightarrow> (k, None)
      | None \<Rightarrow> (pktData, Some (s @ '' is not a sticky buffer'')))"

definition byteMatcher_String :: "byteMatcher \<Rightarrow> string" where
  "byteMatcher_String b = (case map_of byteMatcherVals b of Some v \<Rightarrow> v | None \<Rightarrow> [])"

definition ByteMatcher :: "(byteMatcher \<times> string) list \<Rightarrow> string \<Rightarrow> byteMatcher \<times> string option" where
  "ByteMatcher es s =
     (case rangeFind es s of
        Some k \<Rightarrow> (k, None)
      | None \<Rightarrow> (bUnknown, Some (s @ '' is not a byte_* keyword'')))"

section \<open>Regular expression of a rule\<close>

text \<open>
  \<open>escape\<close> replaces every match of \<open>escapeRE\<close> by a backslash followed by the match's
  first group (the template \<open>\$1\<close>). \<open>escapeRE\<close> is declared outside \<open>rule.go\<close>, so it is
  a parameter: \<open>escapeRE c\<close> tells whether the expression matches the character \<open>c\<close>
  ("escape escapes special char used in regexp").
\<close>

definition escape :: "(char \<Rightarrow> bool) \<Rightarrow> string \<Rightarrow> string" where
  "escape escapeRE r = concat (map (\<lambda>c. if escapeRE c then [backslash, c] else [c]) r)"

fun within :: "ContentOption list \<Rightarrow> string" where
  "within [] = []"
| "within (opt # options) =
     (if ContentOption_Name opt = ''within'' then ContentOption_Value opt else within options)"

fun RE_loop :: "(char \<Rightarrow> bool) \<Rightarrow> string \<Rightarrow> Content list \<Rightarrow> string" where
  "RE_loop escapeRE re [] = re"
| "RE_loop escapeRE re (c # cs) =
     (let re' =
        (case Atoi (within (Content_Options c)) of
           Some d \<Rightarrow> if d > 0 then re @ ''.{0,'' @ Sprintf_d d @ ''}'' else re @ ''.*''
         | None \<Rightarrow> re @ ''.*'')
      in RE_loop escapeRE (re' @ escape escapeRE (Content_Pattern c)) cs)"

definition Rule_RE :: "(char \<Rightarrow> bool) \<Rightarrow> Rule \<Rightarrow> string" where
  "Rule_RE escapeRE r = RE_loop escapeRE [] (Rule_Contents r)"

text \<open>
  \<open>regexp.QuoteMeta\<close> of the standard library puts a backslash before each of the bytes
  \<open>\.+*?()|[]{}^$\<close>.
\<close>

definition special :: "byte \<Rightarrow> bool" where
  "special b = (b \<in> set (backslash # ''.+*?()|[]{}^$''))"

definition QuoteMeta :: "string \<Rightarrow> string" where
  "QuoteMeta s = concat (map (\<lambda>c. if special c then [backslash, c] else [c]) s)"

fun ToRegexp_loop :: "string \<Rightarrow> byte list \<Rightarrow> string" where
  "ToRegexp_loop buffer [] = buffer"
| "ToRegexp_loop buffer (b # bs) =
     (if (of_char b :: nat) > 126 \<or> (of_char b :: nat) < 32
      then ToRegexp_loop (buffer @ ''.'') bs
      else ToRegexp_loop (buffer @ [b]) bs)"

definition Content_ToRegexp :: "Content \<Rightarrow> string" where
  "Content_ToRegexp c = QuoteMeta (ToRegexp_loop [] (Content_Pattern c))"

section \<open>Rendering\<close>

text \<open>
  A \<open>strings.Builder\<close> or \<open>bytes.Buffer\<close> is the string written so far; a loop that
  writes to it takes that string and returns the longer one.
\<close>

fun netString_loop :: "string \<Rightarrow> string list \<Rightarrow> string" where
  "netString_loop s [] = s"
| "netString_loop s [n] = s @ n"
| "netString_loop s (n # ns) = netString_loop (s @ n @ '','') ns"

definition netString :: "string list \<Rightarrow> string" where
  "netString netPart =
     (let s = (if length netPart > 1 then ''['' else []);
          s = netString_loop s netPart
      in if length netPart > 1 then s @ '']'' else s)"

definition Network_String :: "Network \<Rightarrow> string" where
  "Network_String n = netString (Network_Nets n) @ '' '' @ netString (Network_Ports n)"

definition FastPattern_String :: "FastPattern \<Rightarrow> string" where
  "FastPattern_String f =
     (if \<not> FastPattern_Enabled f then []
      else if FastPattern_Only f \<and> (FastPattern_Offset f \<noteq> 0 \<or> FastPattern_Length f \<noteq> 0) then []
      else
        (let s = ''fast_pattern'' in
         if FastPattern_Only f then s @ '':only;''
         else
           (let s = (if FastPattern_Offset f \<noteq> 0 \<and> FastPattern_Length f \<noteq> 0
                     then s @ '':'' @ Sprintf_d (FastPattern_Offset f) @ '','' @
                          Sprintf_d (FastPattern_Length f)
                     else s)
            in s @ '';'')))"

text \<open>
  Modelled from the spec: \<open>inSlice\<close> is called in \<open>rule.go\<close> and declared in a file that is
  not part of the sources. The spec names the lists of its two callers "the recognized
  positional options" and "one of \<open>noalert|isset|isnotset|set|unset|toggle\<close>": it tells
  whether the string is an element of the list.
\<close>

definition inSlice :: "string \<Rightarrow> string list \<Rightarrow> bool" where
  "inSlice str strings = (str \<in> set strings)"

definition ContentOption_String :: "ContentOption \<Rightarrow> string" where
  "ContentOption_String co =
     (if inSlice (ContentOption_Name co) [''byte_extract'', ''depth'', ''distance'', ''offset'', ''within'']
      then ContentOption_Name co @ '':'' @ ContentOption_Value co @ '';''
      else ContentOption_Name co @ '';'')"

definition Reference_String :: "Reference \<Rightarrow> string" where
  "Reference_String r = ''reference:'' @ Reference_Type r @ '','' @ Reference_Value r @ '';''"

text \<open>
  \<open>FormatPattern\<close>: the buffer and the flag \<open>pipe\<close> are the state of the loop. The
  condition of the loop's \<open>if\<close> is \<open>hexEscaped\<close>.
\<close>

definition hexEscaped :: "byte \<Rightarrow> bool" where
  "hexEscaped b =
     (b \<noteq> CHR '' '' \<and>
      ((of_char b :: nat) > 126 \<or> (of_char b :: nat) < 35 \<or> b = CHR '':'' \<or> b = CHR '';''))"

fun FormatPattern_loop :: "string \<times> bool \<Rightarrow> byte list \<Rightarrow> string \<times> bool" where
  "FormatPattern_loop (buffer, pipe) [] = (buffer, pipe)"
| "FormatPattern_loop (buffer, pipe) (b # bs) =
     (if hexEscaped b
      then FormatPattern_loop
             ((if \<not> pipe then buffer @ ''|'' else buffer @ '' '') @ Sprintf_02X b, True) bs
      else FormatPattern_loop
             ((if pipe then buffer @ ''|'' else buffer) @ [b], False) bs)"

definition Content_FormatPattern :: "Content \<Rightarrow> string" where
  "Content_FormatPattern c =
     (case FormatPattern_loop ([], False) (Content_Pattern c) of
        (buffer, pipe) \<Rightarrow> if pipe then buffer @ ''|'' else buffer)"

text \<open>The last statement of \<open>FormatPattern\<close> on a state of its loop.\<close>

definition close_run :: "string \<times> bool \<Rightarrow> string" where
  "close_run st = (case st of (buffer, pipe) \<Rightarrow> if pipe then buffer @ ''|'' else buffer)"

definition Content_String :: "Content \<Rightarrow> string" where
  "Content_String c =
     (let s = ''content:'';
          s = (if Content_Negate c then s @ ''!'' else s);
          s = s @ [dquote] @ Content_FormatPattern c @ [dquote] @ '';'';
          s = foldl (\<lambda>s opt. s @ '' '' @ ContentOption_String opt) s (Content_Options c)
      in if FastPattern_Enabled (Content_FastPattern c)
         then s @ '' '' @ FastPattern_String (Content_FastPattern c)
         else s)"

definition ByteMatch_String :: "ByteMatch \<Rightarrow> string" where
  "ByteMatch_String b =
     (let s = byteMatcher_String (ByteMatch_Kind b) @ '':'';
          s = (if ByteMatch_Kind b = bExtract
               then s @ Sprintf_d (ByteMatch_NumBytes b) @ '','' @ Sprintf_d (ByteMatch_Offset b) @
                    '','' @ ByteMatch_Variable b
               else if ByteMatch_Kind b = bJump
               then s @ Sprintf_d (ByteMatch_NumBytes b) @ '','' @ Sprintf_d (ByteMatch_Offset b)
               else if ByteMatch_Kind b = bTest
               then s @ Sprintf_d (ByteMatch_NumBytes b) @ '','' @ ByteMatch_Operator b @ '','' @
                    Sprintf_d (ByteMatch_Value b) @ '','' @ Sprintf_d (ByteMatch_Offset b)
               else s);
          s = foldl (\<lambda>s opt. s @ '','' @ opt) s (ByteMatch_Options b)
      in s @ '';'')"

fun Metadatas_loop :: "string \<Rightarrow> Metadata list \<Rightarrow> string" where
  "Metadatas_loop s [] = s"
| "Metadatas_loop s [m] = s @ Metadata_Key m @ '' '' @ Metadata_Value m @ '';''"
| "Metadatas_loop s (m # ms) =
     Metadatas_loop (s @ Metadata_Key m @ '' '' @ Metadata_Value m @ '', '') ms"

definition Metadatas_String :: "Metadata list \<Rightarrow> string" where
  "Metadatas_String ms = (if length ms < 1 then [] else Metadatas_loop ''metadata:'' ms)"

definition PCRE_String :: "PCRE \<Rightarrow> string" where
  "PCRE_String p =
     (let pattern = PCRE_Pattern p in
      if length pattern < 1 then []
      else
        (let pattern = (if dquote \<in> set pattern
                        then concat (map (\<lambda>b. if b = dquote then [backslash, dquote] else [b]) pattern)
                        else pattern);
             s = ''pcre:'';
             s = (if PCRE_Negate p then s @ ''!'' else s)
         in s @ [dquote] @ ''/'' @ pattern @ ''/'' @ PCRE_Options p @ [dquote] @ '';''))"

definition Flowbit_String :: "Flowbit \<Rightarrow> string" where
  "Flowbit_String fb =
     (if \<not> inSlice (Flowbit_Action fb) [''noalert'', ''isset'', ''isnotset'', ''set'', ''unset'', ''toggle'']
      then []
      else
        (let s = ''flowbits:'' @ Flowbit_Action fb;
             s = (if Flowbit_Value fb \<noteq> [] then s @ '','' @ Flowbit_Value fb else s)
         in s @ '';''))"

text \<open>The \<open>String\<close> method that \<open>%s\<close> calls on a value of the interface.\<close>

fun orderedMatcher_String :: "orderedMatcher \<Rightarrow> string" where
  "orderedMatcher_String (MContent c) = Content_String c"
| "orderedMatcher_String (MPCRE p) = PCRE_String p"
| "orderedMatcher_String (MByteMatch b) = ByteMatch_String b"

text \<open>
  \<open>Rule.String\<close> in its three parts: the header up to \<open>msg\<close>, the loop over the ordered
  matchers with the cursor \<open>d\<close>, and everything after it.
\<close>

definition Rule_String_header :: "Rule \<Rightarrow> string" where
  "Rule_String_header r =
     (let s = (if Rule_Disabled r then ''#'' else []);
          s = s @ Rule_Action r @ '' '' @ Rule_Protocol r @ '' '' @ Network_String (Rule_Source r) @ '' '';
          s = (if \<not> Rule_Bidirectional r then s @ ''-> '' else s @ ''<> '')
      in s @ Network_String (Rule_Destination r) @ '' (msg:'' @ [dquote] @ Rule_Description r @
         [dquote] @ ''; '')"

fun Matchers_loop :: "DataPos \<times> string \<Rightarrow> orderedMatcher list \<Rightarrow> DataPos \<times> string" where
  "Matchers_loop (d, s) [] = (d, s)"
| "Matchers_loop (d, s) (m # ms) =
     (case m of
        MContent c \<Rightarrow>
          (if d \<noteq> Content_DataPosition c
           then Matchers_loop
                  (Content_DataPosition c,
                   s @ '' '' @ DataPos_String (Content_DataPosition c) @ '';'' @
                   orderedMatcher_String m @ '' '') ms
           else Matchers_loop (d, s @ orderedMatcher_String m @ '' '') ms)
      | MPCRE p \<Rightarrow> Matchers_loop (d, s @ orderedMatcher_String m @ '' '') ms
      | MByteMatch b \<Rightarrow> Matchers_loop (d, s @ orderedMatcher_String m @ '' '') ms)"

definition Rule_String_matchers :: "Rule \<Rightarrow> string \<Rightarrow> string" where
  "Rule_String_matchers r s =
     (if length (Rule_Matchers r) > 0 then snd (Matchers_loop (pktData, s) (Rule_Matchers r)) else s)"

definition Rule_String_rest :: "Rule \<Rightarrow> string \<Rightarrow> string" where
  "Rule_String_rest r s =
     (let s = (if length (Rule_Metas r) > 0 then s @ Metadatas_String (Rule_Metas r) @ '' '' else s);
          s = foldl (\<lambda>s (k, v). s @ k @ '':'' @ v @ ''; '') s (Rule_Tags r);
          s = foldl (\<lambda>s fb. s @ Flowbit_String fb @ '' '') s (Rule_Flowbits r);
          s = foldl (\<lambda>s ref. s @ Reference_String ref @ '' '') s (Rule_References r)
      in s @ ''sid:'' @ Sprintf_d (Rule_SID r) @ ''; rev:'' @ Sprintf_d (Rule_Revision r) @ '';)'')"

definition Rule_String :: "Rule \<Rightarrow> string" where
  "Rule_String r = Rule_String_rest r (Rule_String_matchers r (Rule_String_header r))"

section \<open>The specification's wording\<close>

text \<open>
  The definitions of this section follow the sentences of the specification, to be
  compared with the functions above.
\<close>

subsection \<open>Pattern codec\<close>

text \<open>
  "A byte is binary if it is outside the printable range 35--126 inclusive, or is ASCII
  space, colon, or semicolon."
\<close>

definition spec_binary :: "byte \<Rightarrow> bool" where
  "spec_binary b =
     ((of_char b :: nat) < 35 \<or> (of_char b :: nat) > 126 \<or>
      b = CHR '' '' \<or> b = CHR '':'' \<or> b = CHR '';'')"

text \<open>
  "Binary bytes are grouped into a single \<open>|\<close>-delimited run of two-digit uppercase hex
  pairs separated by single spaces; runs open and close with \<open>|\<close>. Printable bytes
  outside a run are copied literally." The encoder for a given notion of binary byte:
  a run is a maximal block of consecutive binary bytes.
\<close>

fun hex_run :: "byte list \<Rightarrow> string" where
  "hex_run [] = []"
| "hex_run [b] = Sprintf_02X b"
| "hex_run (b # bs) = Sprintf_02X b @ '' '' @ hex_run bs"

function encode_runs :: "(byte \<Rightarrow> bool) \<Rightarrow> byte list \<Rightarrow> string" where
  "encode_runs binary [] = []"
| "encode_runs binary (b # bs) =
     (if binary b
      then ''|'' @ hex_run (b # takeWhile binary bs) @ ''|'' @ encode_runs binary (dropWhile binary bs)
      else b # encode_runs binary bs)"
  by pat_completeness auto
termination
  by (relation "measure (\<lambda>(binary, bs). length bs)")
     (auto simp: less_Suc_eq_le length_dropWhile_le)

subsection \<open>Regexp approximator\<close>

text \<open>
  "If its \<open>within\<close> option parses as a positive integer \<open>d\<close>, append \<open>.{0,d}\<close>; otherwise
  append \<open>.*\<close>."
\<close>

definition within_gap :: "string \<Rightarrow> string" where
  "within_gap w =
     (case Atoi w of
        Some d \<Rightarrow> if 0 < d then ''.{0,'' @ Sprintf_d d @ ''}'' else ''.*''
      | None \<Rightarrow> ''.*'')"

text \<open>
  "... then append the content's loosely-escaped pattern (\<open>toLooseRegex\<close>,
  metacharacter-escaped). Concatenate across all contents."
\<close>

definition spec_RE :: "Rule \<Rightarrow> string" where
  "spec_RE r =
     concat (map (\<lambda>c. within_gap (within (Content_Options c)) @ Content_ToRegexp c) (Rule_Contents r))"

subsection \<open>Sticky-buffer tracker\<close>

text \<open>
  The cursor after a list of matchers, and the directive written before a matcher, with
  the tracker consulted for a \<open>Content\<close> only.
\<close>

fun cursor :: "DataPos \<Rightarrow> orderedMatcher list \<Rightarrow> DataPos" where
  "cursor d [] = d"
| "cursor d (MContent c # ms) = cursor (Content_DataPosition c) ms"
| "cursor d (MPCRE p # ms) = cursor d ms"
| "cursor d (MByteMatch b # ms) = cursor d ms"

fun directive :: "DataPos \<Rightarrow> orderedMatcher \<Rightarrow> string" where
  "directive d (MContent c) =
     (if d = Content_DataPosition c then []
      else '' '' @ DataPos_String (Content_DataPosition c) @ '';'')"
| "directive d (MPCRE p) = []"
| "directive d (MByteMatch b) = []"

text \<open>
  "Before rendering a \<open>Content\<close> (and, if present, a \<open>ByteMatch\<close>) whose \<open>DataPosition\<close>
  differs from the cursor, emit the buffer-selector directive and update the cursor":
  the same two functions with the tracker consulted for a \<open>ByteMatch\<close> too, and the
  rule rendered with them.
\<close>

fun spec_cursor :: "DataPos \<Rightarrow> orderedMatcher list \<Rightarrow> DataPos" where
  "spec_cursor d [] = d"
| "spec_cursor d (MContent c # ms) = spec_cursor (Content_DataPosition c) ms"
| "spec_cursor d (MPCRE p # ms) = spec_cursor d ms"
| "spec_cursor d (MByteMatch b # ms) = spec_cursor (ByteMatch_DataPosition b) ms"

fun spec_directive :: "DataPos \<Rightarrow> orderedMatcher \<Rightarrow> string" where
  "spec_directive d (MContent c) =
     (if d = Content_DataPosition c then []
      else '' '' @ DataPos_String (Content_DataPosition c) @ '';'')"
| "spec_directive d (MPCRE p) = []"
| "spec_directive d (MByteMatch b) =
     (if d = ByteMatch_DataPosition b then []
      else '' '' @ DataPos_String (ByteMatch_DataPosition b) @ '';'')"

definition spec_Rule_String :: "Rule \<Rightarrow> string" where
  "spec_Rule_String r =
     Rule_String_header r @
     concat (map (\<lambda>i. spec_directive (spec_cursor pktData (take i (Rule_Matchers r))) (Rule_Matchers r ! i) @
                       orderedMatcher_String (Rule_Matchers r ! i) @ '' '')
                 [0..<length (Rule_Matchers r)]) @
     Rule_String_rest r []"

section \<open>Loops that only append\<close>

lemma foldl_write: "foldl (\<lambda>s x. s @ f x) s xs = s @ concat (map f xs)"
  by (induction xs arbitrary: s) simp_all

lemma foldl_write_pair:
  "foldl (\<lambda>s (k, v). s @ f k v) s xs = s @ concat (map (\<lambda>(k, v). f k v) xs)"
  by (induction xs arbitrary: s) (simp_all add: case_prod_beta)

lemma concat_map_upt_Suc:
  "concat (map f [0..<Suc n]) = f 0 @ concat (map (\<lambda>i. f (Suc i)) [0..<n])"
proof -
  have "[0..<Suc n] = 0 # map Suc [0..<n]"
    by (simp only: map_Suc_upt upt_conv_Cons [of 0 "Suc n"] zero_less_Suc)
  then show ?thesis
    by (simp only: list.map concat.simps map_map comp_def)
qed

section \<open>Values of the formatting verbs and of the tables\<close>

lemma Sprintf_d_examples:
  "Sprintf_d 0 = ''0''" "Sprintf_d 1 = ''1''" "Sprintf_d 4 = ''4''"
  "Sprintf_d 40 = ''40''" "Sprintf_d 100 = ''100''"
  by (simp_all add: Sprintf_d_def digits.simps)

lemma Sprintf_02X_NUL: "Sprintf_02X (CHR 0x00) = ''00''"
  by (simp add: Sprintf_02X_def hexDigit_def)

lemma byteMatcher_String_simps:
  "byteMatcher_String bExtract = ''byte_extract''"
  "byteMatcher_String bJump = ''byte_jump''"
  "byteMatcher_String bTest = ''byte_test''"
  by (simp_all add: byteMatcher_String_def byteMatcherVals_def)

lemma DataPos_String_fileData: "DataPos_String fileData = ''file_data''"
  by (simp add: DataPos_String_def stickyBuffers_def)

lemma Atoi_40: "Atoi ''40'' = Some 40"
  by (simp add: Atoi_def)

section \<open>Sticky-buffer tracker and rule renderer\<close>

lemma Rule_String_rest_append: "Rule_String_rest r s = s @ Rule_String_rest r []"
  by (simp add: Rule_String_rest_def foldl_write foldl_write_pair Let_def)

text \<open>
  The loop of \<open>Rule.String\<close> leaves the cursor at the \<open>DataPosition\<close> of the last
  \<open>Content\<close> it rendered, and writes, for the matcher at index \<open>i\<close>, the directive that the
  cursor after the first \<open>i\<close> matchers calls for, the matcher and a space.
\<close>

lemma Matchers_loop_tracker:
  "Matchers_loop (d, s) ms =
     (cursor d ms,
      s @ concat (map (\<lambda>i. directive (cursor d (take i ms)) (ms ! i) @
                            orderedMatcher_String (ms ! i) @ '' '')
                      [0..<length ms]))"
proof (induction ms arbitrary: d s)
  case Nil
  show ?case by simp
next
  case (Cons m ms)
  show ?case
    by (cases m) (simp_all add: Cons.IH concat_map_upt_Suc del: upt_Suc)
qed

lemma Content_String_prefix: "Content_String c = ''content:'' @ drop 8 (Content_String c)"
  by (simp add: Content_String_def foldl_write Let_def)

lemma Rule_String_parts:
  "Rule_String r =
     Rule_String_header r @
     concat (map (\<lambda>i. directive (cursor pktData (take i (Rule_Matchers r))) (Rule_Matchers r ! i) @
                       orderedMatcher_String (Rule_Matchers r ! i) @ '' '')
                 [0..<length (Rule_Matchers r)]) @
     Rule_String_rest r []"
proof -
  have "Rule_String_matchers r s =
          s @ concat (map (\<lambda>i. directive (cursor pktData (take i (Rule_Matchers r))) (Rule_Matchers r ! i) @
                               orderedMatcher_String (Rule_Matchers r ! i) @ '' '')
                         [0..<length (Rule_Matchers r)])" for s
    by (simp add: Rule_String_matchers_def Matchers_loop_tracker)
  then show ?thesis
    unfolding Rule_String_def by (subst Rule_String_rest_append) simp
qed

text \<open>
  C1, as the code has it. \<open>Rule.String\<close> renders the header, then for each element of
  the ordered matcher list, in order, an optional buffer-selector directive followed by
  the matcher and a space, then the rest of the rule. The directive \<open>" <buffer-name>;"\<close>
  is written before a \<open>Content\<close> whose \<open>DataPosition\<close> differs from the cursor, and the
  cursor then moves to that \<open>DataPosition\<close>; nothing is written when the two are equal.
  The cursor starts at \<open>pktData\<close>. Only a \<open>Content\<close> is looked at: a \<open>ByteMatch\<close> or a
  \<open>PCRE\<close> gets no directive and leaves the cursor where it is (the equations of
  \<open>directive\<close> and \<open>cursor\<close>). So a rule whose matchers are two contents, the first at the
  default position and the second at \<open>file_data\<close>, renders the single directive
  \<open>" file_data;"\<close>, immediately before the \<open>content:\<close> clause of the second.
\<close>

theorem Rule_String_tracks_Content_buffer:
  "Rule_String r =
     Rule_String_header r @
     concat (map (\<lambda>i. directive (cursor pktData (take i (Rule_Matchers r))) (Rule_Matchers r ! i) @
                       orderedMatcher_String (Rule_Matchers r ! i) @ '' '')
                 [0..<length (Rule_Matchers r)]) @
     Rule_String_rest r [] \<and>
   (Rule_Matchers r = [MContent c1, MContent c2] \<and>
    Content_DataPosition c1 = pktData \<and> Content_DataPosition c2 = fileData \<longrightarrow>
      Rule_String r =
        Rule_String_header r @
        Content_String c1 @ '' '' @ '' file_data;'' @ Content_String c2 @ '' '' @
        Rule_String_rest r [] \<and>
      Content_String c2 = ''content:'' @ drop 8 (Content_String c2))"
proof (intro conjI impI)
  show "Rule_String r =
     Rule_String_header r @
     concat (map (\<lambda>i. directive (cursor pktData (take i (Rule_Matchers r))) (Rule_Matchers r ! i) @
                       orderedMatcher_String (Rule_Matchers r ! i) @ '' '')
                 [0..<length (Rule_Matchers r)]) @
     Rule_String_rest r []"
    by (rule Rule_String_parts)
next
  assume two: "Rule_Matchers r = [MContent c1, MContent c2] \<and>
    Content_DataPosition c1 = pktData \<and> Content_DataPosition c2 = fileData"
  have "[0..<length [MContent c1, MContent c2]] = [0, 1]"
    by (simp add: upt_rec)
  with two show "Rule_String r =
        Rule_String_header r @
        Content_String c1 @ '' '' @ '' file_data;'' @ Content_String c2 @ '' '' @
        Rule_String_rest r []"
    by (simp add: Rule_String_parts DataPos_String_fileData)
next
  show "Content_String c2 = ''content:'' @ drop 8 (Content_String c2)"
    by (rule Content_String_prefix)
qed

text \<open>
  The theorem at the rule of the specification's example: two contents, \<open>a\<close> in the
  packet data and \<open>b\<close> in \<open>file_data\<close>.
\<close>

theorem Rule_String_tracks_Content_buffer_witness:
  "Rule_String
     (Rule_zero\<lparr>Rule_Action := ''alert'', Rule_Protocol := ''http'',
        Rule_Source := \<lparr>Network_Nets = [''any''], Network_Ports = [''any'']\<rparr>,
        Rule_Destination := \<lparr>Network_Nets = [''any''], Network_Ports = [''any'']\<rparr>,
        Rule_SID := 1, Rule_Revision := 1, Rule_Description := ''two buffers'',
        Rule_Matchers :=
          [MContent (Content_zero\<lparr>Content_Pattern := ''a''\<rparr>),
           MContent (Content_zero\<lparr>Content_DataPosition := fileData, Content_Pattern := ''b''\<rparr>)]\<rparr>) =
   ''alert http any any -> any any (msg:\"two buffers\"; content:\"a\";  file_data;content:\"b\"; sid:1; rev:1;)''"
  using Rule_String_tracks_Content_buffer [of
     "Rule_zero\<lparr>Rule_Action := ''alert'', Rule_Protocol := ''http'',
        Rule_Source := \<lparr>Network_Nets = [''any''], Network_Ports = [''any'']\<rparr>,
        Rule_Destination := \<lparr>Network_Nets = [''any''], Network_Ports = [''any'']\<rparr>,
        Rule_SID := 1, Rule_Revision := 1, Rule_Description := ''two buffers'',
        Rule_Matchers :=
          [MContent (Content_zero\<lparr>Content_Pattern := ''a''\<rparr>),
           MContent (Content_zero\<lparr>Content_DataPosition := fileData, Content_Pattern := ''b''\<rparr>)]\<rparr>"
     "Content_zero\<lparr>Content_Pattern := ''a''\<rparr>"
     "Content_zero\<lparr>Content_DataPosition := fileData, Content_Pattern := ''b''\<rparr>",
     THEN conjunct2]
  by (simp add: Rule_zero_def Content_zero_def FastPattern_zero_def Rule_String_header_def
      Rule_String_rest_def Network_String_def netString_def Content_String_def
      Content_FormatPattern_def hexEscaped_def Sprintf_d_examples)

text \<open>
  C1 as the specification words it fails for a \<open>ByteMatch\<close>: a rule whose only matcher
  is a \<open>byte_test\<close> with \<open>DataPosition\<close> \<open>file_data\<close> is rendered without any directive,
  where the specification's tracker would write \<open>" file_data;"\<close> before it.
\<close>

theorem Rule_String_ByteMatch_counterexample:
  "Rule_String
     (Rule_zero\<lparr>Rule_Action := ''alert'', Rule_Protocol := ''tcp'',
        Rule_Source := \<lparr>Network_Nets = [''any''], Network_Ports = [''any'']\<rparr>,
        Rule_Destination := \<lparr>Network_Nets = [''any''], Network_Ports = [''any'']\<rparr>,
        Rule_SID := 1, Rule_Revision := 1, Rule_Description := ''x'',
        Rule_Matchers :=
          [MByteMatch (ByteMatch_zero\<lparr>ByteMatch_DataPosition := fileData, ByteMatch_Kind := bTest,
             ByteMatch_NumBytes := 4, ByteMatch_Operator := ''>'', ByteMatch_Value := 100\<rparr>)]\<rparr>) =
   ''alert tcp any any -> any any (msg:\"x\"; byte_test:4,>,100,0; sid:1; rev:1;)'' \<and>
   spec_Rule_String
     (Rule_zero\<lparr>Rule_Action := ''alert'', Rule_Protocol := ''tcp'',
        Rule_Source := \<lparr>Network_Nets = [''any''], Network_Ports = [''any'']\<rparr>,
        Rule_Destination := \<lparr>Network_Nets = [''any''], Network_Ports = [''any'']\<rparr>,
        Rule_SID := 1, Rule_Revision := 1, Rule_Description := ''x'',
        Rule_Matchers :=
          [MByteMatch (ByteMatch_zero\<lparr>ByteMatch_DataPosition := fileData, ByteMatch_Kind := bTest,
             ByteMatch_NumBytes := 4, ByteMatch_Operator := ''>'', ByteMatch_Value := 100\<rparr>)]\<rparr>) =
   ''alert tcp any any -> any any (msg:\"x\";  file_data;byte_test:4,>,100,0; sid:1; rev:1;)''"
  by (simp add: Rule_String_def Rule_String_matchers_def spec_Rule_String_def Rule_zero_def
      ByteMatch_zero_def Rule_String_header_def Rule_String_rest_def Network_String_def
      netString_def ByteMatch_String_def Sprintf_d_examples byteMatcher_String_simps
      DataPos_String_fileData)

section \<open>Pattern codec\<close>

lemma hex_run_Cons:
  "hex_run (b # bs) = Sprintf_02X b @ concat (map (\<lambda>x. '' '' @ Sprintf_02X x) bs)"
  by (induction bs arbitrary: b) simp_all

text \<open>
  The loop of \<open>FormatPattern\<close> against the encoder by runs, for both values of the flag:
  inside a run (\<open>pipe\<close> set) the loop goes on with the escaped bytes that follow, closes
  the run and encodes what is left.
\<close>

lemma FormatPattern_loop_runs:
  "close_run (FormatPattern_loop (buffer, True) bs) =
     buffer @ concat (map (\<lambda>x. '' '' @ Sprintf_02X x) (takeWhile hexEscaped bs)) @ ''|'' @
     encode_runs hexEscaped (dropWhile hexEscaped bs)"
  "close_run (FormatPattern_loop (buffer, False) bs) = buffer @ encode_runs hexEscaped bs"
proof (induction bs arbitrary: buffer)
  case Nil
  {
    case 1
    show ?case by (simp add: close_run_def)
  next
    case 2
    show ?case by (simp add: close_run_def)
  }
next
  case (Cons b bs)
  {
    case 1
    show ?case by (simp add: Cons.IH)
  next
    case 2
    show ?case by (simp add: Cons.IH hex_run_Cons)
  }
qed

lemma FormatPattern_runs:
  "Content_FormatPattern c = encode_runs hexEscaped (Content_Pattern c)"
  using FormatPattern_loop_runs(2) [of "[]" "Content_Pattern c"]
  by (simp add: Content_FormatPattern_def close_run_def)

lemma encode_runs_literal:
  "\<forall>b \<in> set bs. \<not> binary b \<Longrightarrow> encode_runs binary bs = bs"
  by (induction bs) simp_all

lemma encode_runs_one_run:
  assumes "bs \<noteq> []" and "\<forall>b \<in> set bs. binary b"
  shows "encode_runs binary bs = ''|'' @ hex_run bs @ ''|''"
proof (cases bs)
  case Nil
  with assms(1) show ?thesis by simp
next
  case (Cons b bs')
  with assms(2) have b: "binary b" and run: "takeWhile binary bs' = bs'" "dropWhile binary bs' = []"
    by simp_all
  show ?thesis
    by (simp add: Cons b run)
qed

lemma literal_not_hexEscaped:
  "35 \<le> (of_char b :: nat) \<Longrightarrow> (of_char b :: nat) \<le> 126 \<Longrightarrow>
   b \<noteq> CHR '':'' \<Longrightarrow> b \<noteq> CHR '';'' \<Longrightarrow> \<not> hexEscaped b"
  by (simp add: hexEscaped_def)

text \<open>
  C2, as the code has it. For every byte sequence \<open>FormatPattern\<close> is the encoder by runs
  for the bytes that its condition selects, and those are the binary bytes of the
  specification except the space: a byte is hex-escaped exactly when it is not the space
  and is outside 35--126 or is a colon or a semicolon. Every other byte, the space
  (0x20) among them, is copied literally.
\<close>

theorem FormatPattern_escapes_all_but_space:
  "Content_FormatPattern c = encode_runs hexEscaped (Content_Pattern c) \<and>
   hexEscaped b = (spec_binary b \<and> b \<noteq> CHR '' '')"
  by (auto simp add: FormatPattern_runs hexEscaped_def spec_binary_def)

text \<open>The theorem at \<open>GET\<close>, a space, CR, LF, a colon and \<open>x\<close>.\<close>

theorem FormatPattern_escapes_all_but_space_witness:
  "Content_FormatPattern
     (Content_zero\<lparr>Content_Pattern :=
        [CHR ''G'', CHR ''E'', CHR ''T'', CHR '' '', CHR 0x0D, CHR 0x0A, CHR '':'', CHR ''x'']\<rparr>) =
     ''GET |0D 0A 3A|x'' \<and>
   \<not> hexEscaped (CHR '' '') \<and> hexEscaped (CHR 0x0D)"
  using
    FormatPattern_escapes_all_but_space [of
      "Content_zero\<lparr>Content_Pattern :=
        [CHR ''G'', CHR ''E'', CHR ''T'', CHR '' '', CHR 0x0D, CHR 0x0A, CHR '':'', CHR ''x'']\<rparr>"
      "CHR '' ''"]
    FormatPattern_escapes_all_but_space [of Content_zero "CHR 0x0D"]
  by (simp add: Content_zero_def spec_binary_def hexEscaped_def Sprintf_02X_def hexDigit_def)

text \<open>
  C2 as the specification words it fails at the space: the pattern of the single byte
  0x20 is rendered as a space, where the encoder with the specification's binary bytes
  gives \<open>|20|\<close>.
\<close>

theorem FormatPattern_space_counterexample:
  "Content_FormatPattern (Content_zero\<lparr>Content_Pattern := [CHR 0x20]\<rparr>) = '' '' \<and>
   encode_runs spec_binary [CHR 0x20] = ''|20|''"
  by (simp add: Content_zero_def Content_FormatPattern_def hexEscaped_def spec_binary_def
      Sprintf_02X_def hexDigit_def)

text \<open>
  C3, as the code has it. For a pattern whose bytes all lie in 35--126 and are neither
  space, colon nor semicolon, \<open>FormatPattern\<close> returns the pattern itself, read as text;
  it adds no delimiter, so the result holds a \<open>|\<close> exactly when the pattern holds the
  byte 0x7C (which lies in the range and is copied like any other). The bytes NUL, \<open>A\<close>,
  NUL give \<open>|00|A|00|\<close>. A non-empty pattern of escaped bytes only is one run: a \<open>|\<close>, the
  hex pairs separated by single spaces, and the \<open>|\<close> that closes the run at the end of
  the input.
\<close>

theorem FormatPattern_literal_and_runs:
  "((\<forall>b \<in> set (Content_Pattern c).
        35 \<le> (of_char b :: nat) \<and> (of_char b :: nat) \<le> 126 \<and>
        b \<noteq> CHR '' '' \<and> b \<noteq> CHR '':'' \<and> b \<noteq> CHR '';'') \<longrightarrow>
      Content_FormatPattern c = Content_Pattern c \<and>
      (CHR ''|'' \<in> set (Content_FormatPattern c)) = (CHR 0x7C \<in> set (Content_Pattern c))) \<and>
   (Content_Pattern c = [CHR 0x00, CHR 0x41, CHR 0x00] \<longrightarrow>
      Content_FormatPattern c = ''|00|A|00|'') \<and>
   (Content_Pattern c \<noteq> [] \<and> (\<forall>b \<in> set (Content_Pattern c). hexEscaped b) \<longrightarrow>
      Content_FormatPattern c = ''|'' @ hex_run (Content_Pattern c) @ ''|'')"
proof (intro conjI impI)
  assume lit: "\<forall>b \<in> set (Content_Pattern c).
        35 \<le> (of_char b :: nat) \<and> (of_char b :: nat) \<le> 126 \<and>
        b \<noteq> CHR '' '' \<and> b \<noteq> CHR '':'' \<and> b \<noteq> CHR '';''"
  then have "\<forall>b \<in> set (Content_Pattern c). \<not> hexEscaped b"
    using literal_not_hexEscaped by blast
  then show eq: "Content_FormatPattern c = Content_Pattern c"
    by (simp add: FormatPattern_runs encode_runs_literal)
  show "(CHR ''|'' \<in> set (Content_FormatPattern c)) = (CHR 0x7C \<in> set (Content_Pattern c))"
    by (simp add: eq)
next
  assume "Content_Pattern c = [CHR 0x00, CHR 0x41, CHR 0x00]"
  then show "Content_FormatPattern c = ''|00|A|00|''"
    by (simp add: FormatPattern_runs hexEscaped_def Sprintf_02X_NUL)
next
  assume "Content_Pattern c \<noteq> [] \<and> (\<forall>b \<in> set (Content_Pattern c). hexEscaped b)"
  then show "Content_FormatPattern c = ''|'' @ hex_run (Content_Pattern c) @ ''|''"
    by (simp add: FormatPattern_runs encode_runs_one_run)
qed

text \<open>
  The theorem at the literal pattern \<open>HTTP/1.1\<close>, at NUL, \<open>A\<close>, NUL, and at the run CR,
  LF, 0xFF.
\<close>

theorem FormatPattern_literal_and_runs_witness:
  "list_all (\<lambda>b. 35 \<le> (of_char b :: nat) \<and> (of_char b :: nat) \<le> 126 \<and>
                  b \<noteq> CHR '' '' \<and> b \<noteq> CHR '':'' \<and> b \<noteq> CHR '';'') ''HTTP/1.1'' \<and>
   Content_FormatPattern (Content_zero\<lparr>Content_Pattern := ''HTTP/1.1''\<rparr>) = ''HTTP/1.1'' \<and>
   Content_FormatPattern (Content_zero\<lparr>Content_Pattern := [CHR 0x00, CHR 0x41, CHR 0x00]\<rparr>) =
     ''|00|A|00|'' \<and>
   Content_FormatPattern (Content_zero\<lparr>Content_Pattern := [CHR 0x0D, CHR 0x0A, CHR 0xFF]\<rparr>) =
     ''|0D 0A FF|''"
  using
    FormatPattern_literal_and_runs [of "Content_zero\<lparr>Content_Pattern := ''HTTP/1.1''\<rparr>"]
    FormatPattern_literal_and_runs [of
      "Content_zero\<lparr>Content_Pattern := [CHR 0x00, CHR 0x41, CHR 0x00]\<rparr>"]
    FormatPattern_literal_and_runs [of
      "Content_zero\<lparr>Content_Pattern := [CHR 0x0D, CHR 0x0A, CHR 0xFF]\<rparr>"]
  by (simp add: Content_zero_def hexEscaped_def Sprintf_02X_def hexDigit_def)

text \<open>
  C3 as the specification words it fails at the pattern of the single byte 0x7C: the
  byte lies in 35--126 and is neither space, colon nor semicolon, and the result holds
  a \<open>|\<close>.
\<close>

theorem FormatPattern_pipe_counterexample:
  "list_all (\<lambda>b. 35 \<le> (of_char b :: nat) \<and> (of_char b :: nat) \<le> 126 \<and>
                  b \<noteq> CHR '' '' \<and> b \<noteq> CHR '':'' \<and> b \<noteq> CHR '';'') [CHR 0x7C] \<and>
   CHR ''|'' \<in> set (Content_FormatPattern (Content_zero\<lparr>Content_Pattern := [CHR 0x7C]\<rparr>))"
  by (simp add: Content_zero_def Content_FormatPattern_def hexEscaped_def)

section \<open>Regexp approximator\<close>

lemma RE_loop_concat:
  "RE_loop escapeRE re cs =
     re @ concat (map (\<lambda>c. within_gap (within (Content_Options c)) @
                             escape escapeRE (Content_Pattern c)) cs)"
  by (induction cs arbitrary: re) (simp_all add: within_gap_def split: option.split)

text \<open>
  C4, as the code has it. \<open>Rule.RE\<close> visits the contents of \<open>Contents\<close> in order and
  appends, for each, \<open>.{0,d}\<close> when the value of its \<open>within\<close> option parses as a positive
  integer \<open>d\<close> and \<open>.*\<close> otherwise, followed by the bytes of the pattern as they are, each
  character matched by \<open>escapeRE\<close> preceded by a backslash. \<open>ToRegexp\<close> is not called: a
  byte outside 32--126 is not replaced by a dot.
\<close>

theorem RE_gaps_and_raw_patterns:
  "Rule_RE escapeRE r =
     concat (map (\<lambda>c. within_gap (within (Content_Options c)) @
                       escape escapeRE (Content_Pattern c))
                 (Rule_Contents r))"
  by (simp add: Rule_RE_def RE_loop_concat)

text \<open>
  The theorem at the two contents \<open>(foo\<close> and dot, 0x01, \<open>A\<close> with \<open>within:40\<close>, with the
  metacharacters of \<open>regexp.QuoteMeta\<close> for \<open>escapeRE\<close>.
\<close>

theorem RE_gaps_and_raw_patterns_witness:
  "Rule_RE special
     (Rule_zero\<lparr>Rule_Contents :=
        [Content_zero\<lparr>Content_Pattern := ''(foo''\<rparr>,
         Content_zero\<lparr>Content_Pattern := [CHR ''.'', CHR 0x01, CHR ''A''],
           Content_Options := [\<lparr>ContentOption_Name = ''within'', ContentOption_Value = ''40''\<rparr>]\<rparr>]\<rparr>) =
   ''.*'' @ [backslash] @ ''(foo.{0,40}'' @ [backslash, CHR ''.'', CHR 0x01, CHR ''A'']"
  using RE_gaps_and_raw_patterns [of special
     "Rule_zero\<lparr>Rule_Contents :=
        [Content_zero\<lparr>Content_Pattern := ''(foo''\<rparr>,
         Content_zero\<lparr>Content_Pattern := [CHR ''.'', CHR 0x01, CHR ''A''],
           Content_Options := [\<lparr>ContentOption_Name = ''within'', ContentOption_Value = ''40''\<rparr>]\<rparr>]\<rparr>"]
  by (simp add: Rule_zero_def Content_zero_def within_gap_def Atoi_40 Atoi_def escape_def
      special_def Sprintf_d_examples)

text \<open>
  C4 as the specification words it fails at a rule whose only content has the pattern
  of the single byte 0x01: \<open>Rule.RE\<close> returns \<open>.*\<close> followed by that byte, where the
  specification's approximator returns \<open>.*\<close> followed by an escaped dot.
\<close>

theorem RE_nonprintable_counterexample:
  "Rule_RE special (Rule_zero\<lparr>Rule_Contents := [Content_zero\<lparr>Content_Pattern := [CHR 0x01]\<rparr>]\<rparr>) =
     [CHR ''.'', CHR ''*'', CHR 0x01] \<and>
   spec_RE (Rule_zero\<lparr>Rule_Contents := [Content_zero\<lparr>Content_Pattern := [CHR 0x01]\<rparr>]\<rparr>) =
     [CHR ''.'', CHR ''*'', backslash, CHR ''.'']"
  by (simp add: Rule_RE_def spec_RE_def Rule_zero_def Content_zero_def within_gap_def Atoi_def
      escape_def special_def Content_ToRegexp_def QuoteMeta_def)

text \<open>The two differ at that rule whatever \<open>escapeRE\<close> matches.\<close>

lemma RE_nonprintable_any_escapeRE:
  "Rule_RE escapeRE (Rule_zero\<lparr>Rule_Contents := [Content_zero\<lparr>Content_Pattern := [CHR 0x01]\<rparr>]\<rparr>) \<noteq>
   spec_RE (Rule_zero\<lparr>Rule_Contents := [Content_zero\<lparr>Content_Pattern := [CHR 0x01]\<rparr>]\<rparr>)"
  by (simp add: Rule_RE_def spec_RE_def Rule_zero_def Content_zero_def within_gap_def Atoi_def
      escape_def special_def Content_ToRegexp_def QuoteMeta_def)

section \<open>Byte-matcher encoder\<close>

text \<open>
  C5. \<open>ByteMatch.String\<close> renders the keyword of the kind and a colon, then the
  arguments in the order of the kind (extract: number of bytes, offset, variable; jump:
  number of bytes, offset; test: number of bytes, operator, value, offset), then every
  option of the list in order, each after a comma, then the semicolon. The
  \<open>byte_test\<close> of the specification renders as \<open>byte_test:4,>,100,0;\<close>.
\<close>

theorem ByteMatch_String_argument_order:
  "(ByteMatch_Kind b = bExtract \<longrightarrow>
      ByteMatch_String b =
        ''byte_extract:'' @ Sprintf_d (ByteMatch_NumBytes b) @ '','' @ Sprintf_d (ByteMatch_Offset b) @
        '','' @ ByteMatch_Variable b @
        concat (map (\<lambda>opt. '','' @ opt) (ByteMatch_Options b)) @ '';'') \<and>
   (ByteMatch_Kind b = bJump \<longrightarrow>
      ByteMatch_String b =
        ''byte_jump:'' @ Sprintf_d (ByteMatch_NumBytes b) @ '','' @ Sprintf_d (ByteMatch_Offset b) @
        concat (map (\<lambda>opt. '','' @ opt) (ByteMatch_Options b)) @ '';'') \<and>
   (ByteMatch_Kind b = bTest \<longrightarrow>
      ByteMatch_String b =
        ''byte_test:'' @ Sprintf_d (ByteMatch_NumBytes b) @ '','' @ ByteMatch_Operator b @ '','' @
        Sprintf_d (ByteMatch_Value b) @ '','' @ Sprintf_d (ByteMatch_Offset b) @
        concat (map (\<lambda>opt. '','' @ opt) (ByteMatch_Options b)) @ '';'') \<and>
   ByteMatch_String
     (ByteMatch_zero\<lparr>ByteMatch_Kind := bTest, ByteMatch_NumBytes := 4, ByteMatch_Operator := ''>'',
        ByteMatch_Value := 100, ByteMatch_Offset := 0\<rparr>) = ''byte_test:4,>,100,0;''"
  by (simp add: ByteMatch_String_def ByteMatch_zero_def foldl_write byteMatcher_String_simps
      Sprintf_d_examples)

text \<open>The theorem at one matcher of each kind, with trailing options.\<close>

theorem ByteMatch_String_argument_order_witness:
  "ByteMatch_String
     (ByteMatch_zero\<lparr>ByteMatch_Kind := bExtract, ByteMatch_Variable := ''len'',
        ByteMatch_NumBytes := 4, ByteMatch_Options := [''relative'']\<rparr>) =
     ''byte_extract:4,0,len,relative;'' \<and>
   ByteMatch_String
     (ByteMatch_zero\<lparr>ByteMatch_Kind := bJump, ByteMatch_NumBytes := 4, ByteMatch_Offset := 100,
        ByteMatch_Options := [''relative'', ''big'']\<rparr>) =
     ''byte_jump:4,100,relative,big;'' \<and>
   ByteMatch_String
     (ByteMatch_zero\<lparr>ByteMatch_Kind := bTest, ByteMatch_NumBytes := 4, ByteMatch_Operator := ''='',
        ByteMatch_Value := 100, ByteMatch_Options := [''little'']\<rparr>) =
     ''byte_test:4,=,100,0,little;''"
  using
    ByteMatch_String_argument_order [of
      "ByteMatch_zero\<lparr>ByteMatch_Kind := bExtract, ByteMatch_Variable := ''len'',
        ByteMatch_NumBytes := 4, ByteMatch_Options := [''relative'']\<rparr>"]
    ByteMatch_String_argument_order [of
      "ByteMatch_zero\<lparr>ByteMatch_Kind := bJump, ByteMatch_NumBytes := 4, ByteMatch_Offset := 100,
        ByteMatch_Options := [''relative'', ''big'']\<rparr>"]
    ByteMatch_String_argument_order [of
      "ByteMatch_zero\<lparr>ByteMatch_Kind := bTest, ByteMatch_NumBytes := 4, ByteMatch_Operator := ''='',
        ByteMatch_Value := 100, ByteMatch_Options := [''little'']\<rparr>"]
  by (simp add: ByteMatch_zero_def Sprintf_d_examples)

section \<open>Keyword lookups\<close>

lemma rangeFind_None: "s \<notin> snd ` set es \<Longrightarrow> rangeFind es s = None"
  by (induction es s rule: rangeFind.induct) auto

lemma rangeFind_Some:
  "distinct (map snd es) \<Longrightarrow> (k, s) \<in> set es \<Longrightarrow> rangeFind es s = Some k"
  by (induction es s rule: rangeFind.induct) (auto simp: image_iff)

lemma distinct_stickyBuffers_keys: "distinct (map fst stickyBuffers)"
  by (simp add: stickyBuffers_def)

lemma distinct_stickyBuffers_values: "distinct (map snd stickyBuffers)"
  by (simp add: stickyBuffers_def)

lemma distinct_byteMatcherVals_keys: "distinct (map fst byteMatcherVals)"
  by (simp add: byteMatcherVals_def)

lemma distinct_byteMatcherVals_values: "distinct (map snd byteMatcherVals)"
  by (simp add: byteMatcherVals_def)

text \<open>A range over a map visits the entries of the table, and no keyword twice.\<close>

lemma permutation_values:
  assumes "mset es = mset tbl"
  shows "set es = set tbl" and "distinct (map snd es) = distinct (map snd tbl)"
proof -
  show "set es = set tbl"
    using assms by (rule mset_eq_setD)
  have "mset (map snd es) = mset (map snd tbl)"
    using assms by (metis mset_map)
  then show "distinct (map snd es) = distinct (map snd tbl)"
    by (rule mset_eq_imp_distinct_iff)
qed

text \<open>
  C6. In whatever order the range visits the two tables (\<open>es\<close> and \<open>bs\<close> are
  permutations of them): for a string that is no keyword of the sticky-buffer table,
  \<open>StickyBuffer\<close> returns an error whose message starts with that string, and likewise
  \<open>ByteMatcher\<close> for a string outside the three byte-matcher keywords; for the keyword
  of an entry, the lookup returns the entry's value and no error; and the \<open>String\<close>
  method on the value of an entry returns its keyword (it is a map index, which returns
  a string for every value).
\<close>

theorem keyword_lookup:
  assumes "mset es = mset stickyBuffers" and "mset bs = mset byteMatcherVals"
  shows
    "(s \<notin> snd ` set stickyBuffers \<longrightarrow>
        StickyBuffer es s = (pktData, Some (s @ '' is not a sticky buffer''))) \<and>
     (s \<notin> snd ` set byteMatcherVals \<longrightarrow>
        ByteMatcher bs s = (bUnknown, Some (s @ '' is not a byte_* keyword''))) \<and>
     ((d, s) \<in> set stickyBuffers \<longrightarrow> StickyBuffer es s = (d, None) \<and> DataPos_String d = s) \<and>
     ((k, s) \<in> set byteMatcherVals \<longrightarrow> ByteMatcher bs s = (k, None) \<and> byteMatcher_String k = s)"
proof -
  note es = permutation_values [OF assms(1)]
  note bs = permutation_values [OF assms(2)]
  have "StickyBuffer es s = (pktData, Some (s @ '' is not a sticky buffer''))"
    if "s \<notin> snd ` set stickyBuffers"
    using that es(1) by (simp add: StickyBuffer_def rangeFind_None)
  moreover have "ByteMatcher bs s = (bUnknown, Some (s @ '' is not a byte_* keyword''))"
    if "s \<notin> snd ` set byteMatcherVals"
    using that bs(1) by (simp add: ByteMatcher_def rangeFind_None)
  moreover have "StickyBuffer es s = (d, None)" if "(d, s) \<in> set stickyBuffers"
    using that es distinct_stickyBuffers_values by (simp add: StickyBuffer_def rangeFind_Some)
  moreover have "DataPos_String d = s" if "(d, s) \<in> set stickyBuffers"
    using that distinct_stickyBuffers_keys by (simp add: DataPos_String_def)
  moreover have "ByteMatcher bs s = (k, None)" if "(k, s) \<in> set byteMatcherVals"
    using that bs distinct_byteMatcherVals_values by (simp add: ByteMatcher_def rangeFind_Some)
  moreover have "byteMatcher_String k = s" if "(k, s) \<in> set byteMatcherVals"
    using that distinct_byteMatcherVals_keys by (simp add: byteMatcher_String_def)
  ultimately show ?thesis by blast
qed

text \<open>
  The theorem with the tables visited from their last entry to their first, at two
  strings that are no keywords and at \<open>file_data\<close> and \<open>byte_jump\<close>.
\<close>

theorem keyword_lookup_witness:
  "StickyBuffer (rev stickyBuffers) ''file_dat'' = (pktData, Some ''file_dat is not a sticky buffer'') \<and>
   ByteMatcher (rev byteMatcherVals) ''byte_math'' =
     (bUnknown, Some ''byte_math is not a byte_* keyword'') \<and>
   StickyBuffer (rev stickyBuffers) ''file_data'' = (fileData, None) \<and>
   DataPos_String fileData = ''file_data'' \<and>
   ByteMatcher (rev byteMatcherVals) ''byte_jump'' = (bJump, None) \<and>
   byteMatcher_String bJump = ''byte_jump''"
proof -
  have p: "mset (rev stickyBuffers) = mset stickyBuffers"
    "mset (rev byteMatcherVals) = mset byteMatcherVals"
    by simp_all
  have a: "''file_dat'' \<notin> snd ` set stickyBuffers" "''byte_math'' \<notin> snd ` set stickyBuffers"
    by (simp_all add: stickyBuffers_def)
  have b: "''byte_math'' \<notin> snd ` set byteMatcherVals" "''file_dat'' \<notin> snd ` set byteMatcherVals"
    by (simp_all add: byteMatcherVals_def)
  have c: "(fileData, ''file_data'') \<in> set stickyBuffers"
    by (simp add: stickyBuffers_def)
  have d: "(bJump, ''byte_jump'') \<in> set byteMatcherVals"
    by (simp add: byteMatcherVals_def)
  show ?thesis
    using keyword_lookup [OF p, of "''file_dat''"] keyword_lookup [OF p, of "''byte_math''"]
      keyword_lookup [OF p, of "''file_data''" fileData]
      keyword_lookup [OF p, of "''byte_jump''" _ bJump] a b c d
    by simp
qed

section \<open>Silent-empty renderings\<close>

text \<open>
  C7. \<open>FastPattern.String\<close> returns the empty string whenever \<open>Enabled\<close> is false, and
  whenever \<open>Only\<close> is true together with a non-zero \<open>Offset\<close> or a non-zero \<open>Length\<close>; with
  \<open>Enabled\<close> and \<open>Only\<close> true and both numbers zero it returns \<open>fast_pattern:only;\<close>. The
  result is a string in every case: the method has no error to return.
\<close>

theorem FastPattern_String_empty_or_only:
  "(\<not> FastPattern_Enabled f \<longrightarrow> FastPattern_String f = []) \<and>
   (FastPattern_Only f \<and> (FastPattern_Offset f \<noteq> 0 \<or> FastPattern_Length f \<noteq> 0) \<longrightarrow>
      FastPattern_String f = []) \<and>
   (FastPattern_Enabled f \<and> FastPattern_Only f \<and>
    FastPattern_Offset f = 0 \<and> FastPattern_Length f = 0 \<longrightarrow>
      FastPattern_String f = ''fast_pattern:only;'')"
  by (simp add: FastPattern_String_def)

text \<open>
  The theorem at a disabled fast pattern, at \<open>FastPattern{Enabled:true, Only:true,
  Offset:1}\<close> and at \<open>FastPattern{Enabled:true, Only:true}\<close>.
\<close>

theorem FastPattern_String_empty_or_only_witness:
  "FastPattern_String (FastPattern_zero\<lparr>FastPattern_Offset := 3, FastPattern_Length := 4\<rparr>) = [] \<and>
   FastPattern_String
     (FastPattern_zero\<lparr>FastPattern_Enabled := True, FastPattern_Only := True,
        FastPattern_Offset := 1\<rparr>) = [] \<and>
   FastPattern_String (FastPattern_zero\<lparr>FastPattern_Enabled := True, FastPattern_Only := True\<rparr>) =
     ''fast_pattern:only;''"
  using
    FastPattern_String_empty_or_only [of
      "FastPattern_zero\<lparr>FastPattern_Offset := 3, FastPattern_Length := 4\<rparr>"]
    FastPattern_String_empty_or_only [of
      "FastPattern_zero\<lparr>FastPattern_Enabled := True, FastPattern_Only := True,
         FastPattern_Offset := 1\<rparr>"]
    FastPattern_String_empty_or_only [of
      "FastPattern_zero\<lparr>FastPattern_Enabled := True, FastPattern_Only := True\<rparr>"]
  by (simp add: FastPattern_zero_def)

text \<open>
  C8. \<open>Flowbit.String\<close> returns the empty string for every action outside \<open>noalert\<close>,
  \<open>isset\<close>, \<open>isnotset\<close>, \<open>set\<close>, \<open>unset\<close>, \<open>toggle\<close>; for an action of that set and a
  non-empty value it returns \<open>flowbits:\<close>, the action, a comma, the value and a semicolon.
  \<open>Flowbit{Action:"isset", Value:"x"}\<close> renders \<open>flowbits:isset,x;\<close> and
  \<open>Flowbit{Action:"bogus"}\<close> renders the empty string.
\<close>

theorem Flowbit_String_actions:
  "(Flowbit_Action fb \<notin> {''noalert'', ''isset'', ''isnotset'', ''set'', ''unset'', ''toggle''} \<longrightarrow>
      Flowbit_String fb = []) \<and>
   (Flowbit_Action fb \<in> {''noalert'', ''isset'', ''isnotset'', ''set'', ''unset'', ''toggle''} \<and>
    Flowbit_Value fb \<noteq> [] \<longrightarrow>
      Flowbit_String fb = ''flowbits:'' @ Flowbit_Action fb @ '','' @ Flowbit_Value fb @ '';'') \<and>
   Flowbit_String \<lparr>Flowbit_Action = ''isset'', Flowbit_Value = ''x''\<rparr> = ''flowbits:isset,x;'' \<and>
   Flowbit_String \<lparr>Flowbit_Action = ''bogus'', Flowbit_Value = []\<rparr> = []"
  by (simp add: Flowbit_String_def inSlice_def)

text \<open>The theorem at an action outside the set and at \<open>toggle\<close> with a value.\<close>

theorem Flowbit_String_actions_witness:
  "Flowbit_String \<lparr>Flowbit_Action = ''frobnicate'', Flowbit_Value = ''y''\<rparr> = [] \<and>
   Flowbit_String \<lparr>Flowbit_Action = ''toggle'', Flowbit_Value = ''bit1''\<rparr> = ''flowbits:toggle,bit1;''"
  using
    Flowbit_String_actions [of "\<lparr>Flowbit_Action = ''frobnicate'', Flowbit_Value = ''y''\<rparr>"]
    Flowbit_String_actions [of "\<lparr>Flowbit_Action = ''toggle'', Flowbit_Value = ''bit1''\<rparr>"]
  by simp

text \<open>
  C9. For a fast pattern with \<open>Enabled\<close> true, \<open>Only\<close> false and exactly one of \<open>Offset\<close>
  and \<open>Length\<close> non-zero, \<open>FastPattern.String\<close> returns \<open>fast_pattern;\<close>: the pair is
  written only when both numbers are non-zero.
\<close>

theorem FastPattern_String_drops_half_chop:
  "FastPattern_Enabled f \<and> \<not> FastPattern_Only f \<and>
   ((FastPattern_Offset f \<noteq> 0 \<and> FastPattern_Length f = 0) \<or>
    (FastPattern_Offset f = 0 \<and> FastPattern_Length f \<noteq> 0)) \<Longrightarrow>
   FastPattern_String f = ''fast_pattern;''"
  by (auto simp add: FastPattern_String_def)

text \<open>The theorem at an offset without a length and at a length without an offset.\<close>

theorem FastPattern_String_drops_half_chop_witness:
  "FastPattern_String (FastPattern_zero\<lparr>FastPattern_Enabled := True, FastPattern_Offset := 5\<rparr>) =
     ''fast_pattern;'' \<and>
   FastPattern_String (FastPattern_zero\<lparr>FastPattern_Enabled := True, FastPattern_Length := 7\<rparr>) =
     ''fast_pattern;''"
  using
    FastPattern_String_drops_half_chop [of
      "FastPattern_zero\<lparr>FastPattern_Enabled := True, FastPattern_Offset := 5\<rparr>"]
    FastPattern_String_drops_half_chop [of
      "FastPattern_zero\<lparr>FastPattern_Enabled := True, FastPattern_Length := 7\<rparr>"]
  by (simp add: FastPattern_zero_def)

text \<open>
  C10. For every \<open>DataPos\<close> that is no key of the sticky-buffer table, \<open>DataPos.String\<close>
  returns the empty string; every value below \<open>pktData\<close> or above \<open>smbShare\<close>, the last
  declared constant, is such a value.
\<close>

theorem DataPos_String_outside_table:
  "(d \<notin> fst ` set stickyBuffers \<longrightarrow> DataPos_String d = []) \<and>
   (d < pktData \<or> smbShare < d \<longrightarrow> d \<notin> fst ` set stickyBuffers)"
  by (auto simp add: DataPos_String_def map_of_eq_None_iff [symmetric] stickyBuffers_def)

text \<open>The theorem at 29, the first value after \<open>smbShare\<close>, and at a negative value.\<close>

theorem DataPos_String_outside_table_witness:
  "DataPos_String 29 = [] \<and> DataPos_String (- 1) = []"
  using DataPos_String_outside_table [of 29] DataPos_String_outside_table [of "- 1"]
  by simp

end
